theory Spec2Isabelle
  imports Complex_Main "HOL-Library.Sublist" "HOL-Library.Log_Nat"
begin

section \<open>Python strings\<close>

text \<open>
  A Python \<open>str\<close> is modelled as a \<open>string\<close>: one \<open>char\<close> per code point, for the code
  points below 256.  \<open>isspace\<close>, \<open>isalpha\<close> and \<open>lower\<close> are Python's on that range.
\<close>

definition nl :: char where
  "nl = CHR 0x0A"

definition isspace :: "char \<Rightarrow> bool" where
  "isspace c = (let n = (of_char c :: nat) in
     (9 \<le> n \<and> n \<le> 13) \<or> (28 \<le> n \<and> n \<le> 32) \<or> n = 133 \<or> n = 160)"

definition isalpha :: "char \<Rightarrow> bool" where
  "isalpha c = (let n = (of_char c :: nat) in
     (65 \<le> n \<and> n \<le> 90) \<or> (97 \<le> n \<and> n \<le> 122) \<or> n = 170 \<or> n = 181 \<or> n = 186 \<or>
     (192 \<le> n \<and> n \<le> 214) \<or> (216 \<le> n \<and> n \<le> 246) \<or> (248 \<le> n \<and> n \<le> 255))"

definition is_az :: "char \<Rightarrow> bool" where
  "is_az c = (let n = (of_char c :: nat) in 97 \<le> n \<and> n \<le> 122)"

definition is_AZ :: "char \<Rightarrow> bool" where
  "is_AZ c = (let n = (of_char c :: nat) in 65 \<le> n \<and> n \<le> 90)"

definition lower_char :: "char \<Rightarrow> char" where
  "lower_char c = (let n = (of_char c :: nat) in
     if (65 \<le> n \<and> n \<le> 90) \<or> (192 \<le> n \<and> n \<le> 222 \<and> n \<noteq> 215) then char_of (n + 32) else c)"

definition upper_char :: "char \<Rightarrow> char" where
  "upper_char c = (if is_az c then char_of ((of_char c :: nat) - 32) else c)"

definition lower :: "string \<Rightarrow> string" where
  "lower s = map lower_char s"

text \<open>\<open>str.title()\<close>, on ASCII letters: a letter after a non-letter is upper-cased, a
  letter after a letter is lower-cased.  The source applies it to strings of \<open>[a-z]\<close> and
  white space only (regex groups and the section markers).\<close>

fun title_from :: "bool \<Rightarrow> string \<Rightarrow> string" where
  "title_from prev_cased [] = []"
| "title_from prev_cased (c # cs) =
     (if is_az c then (if prev_cased then c else upper_char c) # title_from True cs
      else if is_AZ c then (if prev_cased then lower_char c else c) # title_from True cs
      else c # title_from False cs)"

definition title :: "string \<Rightarrow> string" where
  "title s = title_from False s"

definition strip :: "string \<Rightarrow> string" where
  "strip s = rev (dropWhile isspace (rev (dropWhile isspace s)))"

text \<open>\<open>sep.join(xs)\<close>\<close>

fun join :: "string \<Rightarrow> string list \<Rightarrow> string" where
  "join sep [] = []"
| "join sep [x] = x"
| "join sep (x # y # ys) = x @ sep @ join sep (y # ys)"

text \<open>\<open>text.split('\n')\<close>: the pieces between the newlines, never an empty list.\<close>

fun split_nl :: "string \<Rightarrow> string list" where
  "split_nl [] = [[]]"
| "split_nl (c # cs) =
     (if c = nl then [] # split_nl cs
      else (case split_nl cs of [] \<Rightarrow> [[c]] | p # ps \<Rightarrow> (c # p) # ps))"

text \<open>\<open>needle in haystack\<close> on strings.\<close>

fun contains :: "string \<Rightarrow> string \<Rightarrow> bool" where
  "contains needle [] = (needle = [])"
| "contains needle (c # cs) = (prefix needle (c # cs) \<or> contains needle cs)"

section \<open>The regular expressions of the source\<close>

text \<open>
  The patterns of \<open>CHUNK.py\<close> use literals, greedy repetitions of a character class,
  sequence, optional groups and \<open>$\<close>.  \<open>rmatch r s\<close> lists the suffixes of \<open>s\<close> that remain
  after a match of \<open>r\<close> at the start of \<open>s\<close>, in the order in which Python's backtracking
  matcher tries them; the first one that lets the rest of the pattern match is taken.
\<close>

datatype regex =
    Lit string
  | Rep "char \<Rightarrow> bool" nat "nat option"
  | Seq regex regex
  | Alt regex regex
  | Opt regex
  | Eos

fun rmatch :: "regex \<Rightarrow> string \<Rightarrow> string list" where
  "rmatch (Lit l) s = (if prefix l s then [drop (length l) s] else [])"
| "rmatch (Rep p lo hi) s =
     (let avail = length (takeWhile p s);
          top = (case hi of None \<Rightarrow> avail | Some k \<Rightarrow> min k avail)
      in map (\<lambda>j. drop j s) (rev [lo ..< Suc top]))"
| "rmatch (Seq a b) s = concat (map (rmatch b) (rmatch a s))"
| "rmatch (Alt a b) s = rmatch a s @ rmatch b s"
| "rmatch (Opt a) s = rmatch a s @ [s]"
| "rmatch Eos s = (if s = [] \<or> s = [nl] then [s] else [])"

text \<open>A pattern with one capturing group: what precedes the group, the group, what follows.
  \<open>match_at\<close> gives the group's text and the rest of the string after the whole match.\<close>

definition match_at :: "regex \<times> regex \<times> regex \<Rightarrow> string \<Rightarrow> (string \<times> string) option" where
  "match_at pat s = (case pat of (pre, grp, post) \<Rightarrow>
     (case concat (map (\<lambda>r1. concat (map (\<lambda>r2. map (\<lambda>r3. (take (length r1 - length r2) r1, r3))
                                                  (rmatch post r2))
                                        (rmatch grp r1)))
                       (rmatch pre s)) of
        [] \<Rightarrow> None
      | m # _ \<Rightarrow> Some m))"

text \<open>\<open>re.search(pat, s).group(1)\<close>: the leftmost position with a match.\<close>

fun re_search :: "regex \<times> regex \<times> regex \<Rightarrow> string \<Rightarrow> string option" where
  "re_search pat [] = map_option fst (match_at pat [])"
| "re_search pat (c # cs) =
     (case match_at pat (c # cs) of
        Some m \<Rightarrow> Some (fst m)
      | None \<Rightarrow> re_search pat cs)"

text \<open>\<open>re.findall(pat, s)\<close>: the groups of the non-overlapping matches, left to right.  The
  patterns of the source never match the empty string, so the search resumes where the match
  ended.\<close>

function re_findall :: "regex \<times> regex \<times> regex \<Rightarrow> string \<Rightarrow> string list" where
  "re_findall pat s =
     (case match_at pat s of
        Some (g, rest) \<Rightarrow>
          (if length rest < length s then g # re_findall pat rest
           else (case s of [] \<Rightarrow> [g] | _ # cs \<Rightarrow> g # re_findall pat cs))
      | None \<Rightarrow> (case s of [] \<Rightarrow> [] | _ # cs \<Rightarrow> re_findall pat cs))"
  by pat_completeness auto
termination
  by (relation "measure (\<lambda>(pat, s). length s)") auto

section \<open>Floating point: the product \<open>len(alias) * 0.7\<close>\<close>

text \<open>
  \<open>0.7\<close> is the double \<open>3152519739159347 / 2^52\<close>.  A product of two doubles is the exact
  product rounded to the nearest double, ties to the even significand.  \<open>round_double\<close> does
  this rounding for \<open>1 \<le> x\<close> (the source multiplies only lengths from 3 to 20 by 0.7);
  below 1 the value is left as it is.
\<close>

definition double_0_7 :: rat where
  "double_0_7 = 3152519739159347 / 4503599627370496"

definition round_double :: "rat \<Rightarrow> rat" where
  "round_double x =
     (if x < 1 then x
      else let e = nat (bitlen \<lfloor>x\<rfloor> - 1);
               ulp = (2 ^ e / 2 ^ 52 :: rat);
               q = x / ulp;
               f = \<lfloor>q\<rfloor>;
               r = q - of_int f;
               m = (if r < 1 / 2 \<or> (r = 1 / 2 \<and> even f) then f else f + 1)
           in of_int m * ulp)"

definition float_mul :: "rat \<Rightarrow> rat \<Rightarrow> rat" where
  "float_mul a b = round_double (a * b)"

section \<open>\<open>SemanticChunker\<close>\<close>

record chunker =
  max_chunk_size :: nat
  min_chunk_size :: nat

subsection \<open>\<open>extract_wife_info\<close>\<close>

definition name_pattern :: "regex \<times> regex \<times> regex" where
  "name_pattern =
     (Seq (Lit ''umm al-muminin'') (Rep isspace 1 None),
      Seq (Rep is_az 1 None)
          (Opt (Seq (Rep isspace 1 None) (Seq (Lit ''bint'') (Seq (Rep isspace 1 None)
             (Seq (Rep is_az 1 None) (Opt (Seq (Rep isspace 1 None) (Rep is_az 1 None)))))))),
      Lit [])"

definition alias_pattern :: "string \<Rightarrow> regex \<times> regex \<times> regex" where
  "alias_pattern phrase =
     (Seq (Lit phrase) (Rep (\<lambda>c. c = CHR '':'' \<or> isspace c) 1 None),
      Rep (\<lambda>c. is_az c \<or> isspace c) 3 (Some 20),
      Alt (Rep (\<lambda>c. c = CHR '','' \<or> c = CHR ''.'') 1 (Some 1)) Eos)"

definition alias_patterns :: "(regex \<times> regex \<times> regex) list" where
  "alias_patterns =
     [alias_pattern ''also known as'', alias_pattern ''nicknamed'',
      alias_pattern ''called'', alias_pattern ''dubbed'']"

text \<open>The test of line 63 on the stripped candidate.\<close>

definition alias_ok :: "string \<Rightarrow> bool" where
  "alias_ok alias =
     (3 \<le> length alias \<and> length alias \<le> 20 \<and>
      of_nat (length (filter isalpha alias)) > float_mul (of_nat (length alias)) double_0_7)"

text \<open>The candidates, in the order the two loops visit them.\<close>

definition alias_candidates :: "string \<Rightarrow> string list" where
  "alias_candidates text = concat (map (\<lambda>pattern. re_findall pattern (lower text)) alias_patterns)"

text \<open>The result dict \<open>{'wife_name': ..., 'aliases': list(set(aliases))}\<close> as a pair; the
  order of \<open>list(set(...))\<close> is not determined, so the aliases are a set.\<close>

definition extract_wife_info :: "string \<Rightarrow> string option \<times> string set" where
  "extract_wife_info text =
     (map_option title (re_search name_pattern (lower text)),
      set (map title (filter alias_ok (map strip (alias_candidates text)))))"

subsection \<open>\<open>split_into_sections\<close>\<close>

definition section_markers :: "string list" where
  "section_markers =
     [''name and lineage'', ''her marriage'', ''her life with'', ''her emigration'',
      ''her death'', ''her virtues'', ''embracing islam'', ''her childhood'',
      ''her upbringing'', ''her knowledge'', ''wisdom behind'', ''her contributions'',
      ''her generosity'', ''battle of'', ''her worship'', ''her piety'', ''criteria for'',
      ''the wisdom'', ''her father'', ''her mother'']"

text \<open>A section dict \<open>{'title': ..., 'content': [...]}\<close> as a pair.\<close>

type_synonym section_dict = "string \<times> string list"

definition paragraphs_of :: "string \<Rightarrow> string list" where
  "paragraphs_of text = map strip (filter (\<lambda>p. strip p \<noteq> []) (split_nl text))"

text \<open>The loop over the paragraphs: the sections saved so far and the current section.\<close>

fun sections_loop :: "string list \<Rightarrow> section_dict list \<Rightarrow> section_dict \<Rightarrow> section_dict list" where
  "sections_loop [] sections current_section =
     (if snd current_section \<noteq> [] then sections @ [current_section] else sections)"
| "sections_loop (para # paras) sections current_section =
     (case find (\<lambda>marker. prefix marker (lower para)) section_markers of
        Some marker \<Rightarrow>
          sections_loop paras
            (if snd current_section \<noteq> [] then sections @ [current_section] else sections)
            (title marker, [para])
      | None \<Rightarrow>
          sections_loop paras sections (fst current_section, snd current_section @ [para]))"

definition split_into_sections :: "string \<Rightarrow> section_dict list" where
  "split_into_sections text = sections_loop (paragraphs_of text) [] (''Introduction'', [])"

subsection \<open>\<open>create_chunks\<close>\<close>

record chunk =
  wife_name :: string
  aliases :: "string set"
  section' :: string
  content :: string
  char_count :: nat

text \<open>\<open>re.split(r'(?<=[.!?])\s+', s)\<close>: a separator is a maximal run of white space that
  follows one of \<open>.\<close>, \<open>!\<close>, \<open>?\<close>.  \<open>prev\<close> is the character before the current position.\<close>

definition is_ender :: "char \<Rightarrow> bool" where
  "is_ender c = (c = CHR ''.'' \<or> c = CHR ''!'' \<or> c = CHR ''?'')"

function split_sentences :: "char option \<Rightarrow> string \<Rightarrow> string list" where
  "split_sentences prev [] = [[]]"
| "split_sentences prev (c # cs) =
     (if isspace c \<and> (case prev of None \<Rightarrow> False | Some p \<Rightarrow> is_ender p)
      then [] # split_sentences None (dropWhile isspace cs)
      else (case split_sentences (Some c) cs of
              [] \<Rightarrow> [[c]]
            | piece # pieces \<Rightarrow> (c # piece) # pieces))"
  by pat_completeness auto
termination
  by (relation "measure (\<lambda>(prev, s). length s)")
     (auto simp: length_dropWhile_le less_Suc_eq_le)

text \<open>The loop of lines 180 to 201 over the sentences of an oversized section.  The result
  lists the buffers (\<open>current_chunk\<close>) in the order in which they are emitted: one at each
  flush, and the remaining one, when it is not empty, at the end (line 204).\<close>

fun pack :: "chunker \<Rightarrow> string list \<Rightarrow> string list \<Rightarrow> nat \<Rightarrow> string list list" where
  "pack self [] current_chunk current_length =
     (if current_chunk \<noteq> [] then [current_chunk] else [])"
| "pack self (s # sentences) current_chunk current_length =
     (let sentence = strip s in
      if sentence = [] then pack self sentences current_chunk current_length
      else if current_length + length sentence > max_chunk_size self
              \<and> current_length \<ge> min_chunk_size self
      then current_chunk # pack self sentences [sentence] (length sentence)
      else pack self sentences (current_chunk @ [sentence])
             (current_length + length sentence + 1))"

definition mk_chunk :: "string option \<times> string set \<Rightarrow> string \<Rightarrow> string \<Rightarrow> chunk" where
  "mk_chunk wife_info section_title text =
     \<lparr>wife_name = (case fst wife_info of None \<Rightarrow> ''Unknown'' | Some n \<Rightarrow> if n = [] then ''Unknown'' else n),
      aliases = snd wife_info,
      section' = section_title,
      content = text,
      char_count = length text\<rparr>"

definition section_chunks :: "chunker \<Rightarrow> string option \<times> string set \<Rightarrow> section_dict \<Rightarrow> chunk list" where
  "section_chunks self wife_info sec =
     (let section_text = join '' '' (snd sec) in
      if length section_text \<le> max_chunk_size self
      then [mk_chunk wife_info (fst sec) section_text]
      else map (\<lambda>current_chunk. mk_chunk wife_info (fst sec) (join '' '' current_chunk))
               (pack self (split_sentences None section_text) [] 0))"

definition create_chunks :: "chunker \<Rightarrow> string \<Rightarrow> chunk list" where
  "create_chunks self chapter_text =
     concat (map (section_chunks self (extract_wife_info chapter_text))
                 (split_into_sections chapter_text))"

subsection \<open>\<open>process_chapters\<close>: chunking and the correction pass\<close>

text \<open>The exceptions that can leave the functions modelled here.\<close>

datatype py_error = KeyError | IndexError | ValueError | ZeroDivisionError

definition fix_chunk :: "chunk \<Rightarrow> chunk" where
  "fix_chunk c =
     (if wife_name c = ''Umm'' \<or> wife_name c = ''Unknown'' then
        (let content_lower = lower (content c) in
         if contains ''umm salamah'' content_lower
         then c\<lparr>wife_name := ''Umm Salamah Hind Bint Umayyah''\<rparr>
         else if contains ''umm habibah'' content_lower
         then c\<lparr>wife_name := ''Umm Habibah Ramlah Bint Abu Sufyan''\<rparr>
         else if contains ''conclusion'' content_lower
         then c\<lparr>wife_name := ''Conclusion'', section' := ''Conclusion''\<rparr>
         else c)
      else c)"

definition post_process :: "chunk list \<Rightarrow> chunk list" where
  "post_process all_chunks = map fix_chunk all_chunks"

text \<open>\<open>process_chapters\<close> on the chapters read from the input file.  The statistics
  printed after the correction pass divide by the number of chunks (line 314), so with no
  chunk at all the function raises \<open>ZeroDivisionError\<close> before it saves or returns anything.\<close>

definition process_chapters :: "string list \<Rightarrow> py_error + chunk list" where
  "process_chapters chapters =
     (let all_chunks =
            post_process
              (concat (map (create_chunks \<lparr>max_chunk_size = 800, min_chunk_size = 400\<rparr>) chapters))
      in if all_chunks = [] then Inl ZeroDivisionError else Inr all_chunks)"

section \<open>\<open>retrieval.py\<close>\<close>

text \<open>
  The two Ollama calls are the outside world.  \<open>requests.post\<close> followed by
  \<open>raise_for_status\<close> either raises a \<open>RequestException\<close> (connection failure, timeout, HTTP
  error status) or yields the decoded JSON body; of that body the source reads one field,
  which may be missing.  Each function returns, with its result, the list of the calls it
  made.  Exceptions that leave a function are the \<open>Inl\<close> results.
\<close>

datatype 'a upstream = RequestException | Response 'a

datatype call = EmbedCall "string list" | GenerateCall string

text \<open>\<open>cosine_similarity\<close> (scikit-learn, floating point) and \<open>np.argsort\<close> are library
  functions and parameters of the model; the scores are values of a linear order.\<close>

record ('v, 's) world =
  embed_service :: "string list \<Rightarrow> 'v list option upstream"
  generate_service :: "string \<Rightarrow> string option upstream"
  OLLAMA_GENERATE_URL :: string
  cosine_similarity :: "'v \<Rightarrow> 'v \<Rightarrow> 's"
  argsort :: "'s list \<Rightarrow> nat list"

text \<open>A row of the data frame \<open>DF\<close>; \<open>DF\<close> itself is \<open>None\<close> or a list of rows.\<close>

record 'v df_row =
  df_content :: string
  chunk_embeddings :: "'v"

definition create_embedding ::
  "('v, 's) world \<Rightarrow> 'v df_row list option \<Rightarrow> string list \<Rightarrow> call list \<times> (py_error + 'v list option)" where
  "create_embedding w DF input_list =
     (if input_list = [] \<or> DF = None then ([], Inr None)
      else (case embed_service w input_list of
              RequestException \<Rightarrow> ([EmbedCall input_list], Inr None)
            | Response None \<Rightarrow> ([EmbedCall input_list], Inl KeyError)
            | Response (Some es) \<Rightarrow> ([EmbedCall input_list], Inr (Some es))))"

definition inference :: "('v, 's) world \<Rightarrow> string \<Rightarrow> call list \<times> string" where
  "inference w prompt =
     (if OLLAMA_GENERATE_URL w = [] then ([], ''OLLAMA_URL is not configured.'')
      else (case generate_service w prompt of
              RequestException \<Rightarrow>
                ([GenerateCall prompt],
                 ''Sorry, I couldn'' @ [CHR 0x27] @ ''t connect to the Ollama server or the request timed out.'')
            | Response None \<Rightarrow>
                ([GenerateCall prompt],
                 ''Error: No '' @ [CHR 0x27] @ ''response'' @ [CHR 0x27] @ '' field in Ollama output.'')
            | Response (Some answer) \<Rightarrow> ([GenerateCall prompt], answer)))"

text \<open>\<open>xs[-k:]\<close> for \<open>k > 0\<close>, and line 89: \<open>np.argsort(similarities)[-3:][::-1]\<close>.\<close>

definition take_last :: "nat \<Rightarrow> 'a list \<Rightarrow> 'a list" where
  "take_last k xs = drop (length xs - k) xs"

definition top_indices :: "('s list \<Rightarrow> nat list) \<Rightarrow> 's list \<Rightarrow> nat list" where
  "top_indices argsort_fn similarities = rev (take_last 3 (argsort_fn similarities))"

text \<open>Lines 85 to 95: the similarities, the top indices, and the selected contents, here
  paired with their scores.\<close>

definition similarities_of :: "('v, 's) world \<Rightarrow> 'v df_row list \<Rightarrow> 'v \<Rightarrow> 's list" where
  "similarities_of w rows questions_embedding =
     map (\<lambda>r. cosine_similarity w (chunk_embeddings r) questions_embedding) rows"

definition retrieval :: "('v, 's) world \<Rightarrow> 'v df_row list \<Rightarrow> 'v \<Rightarrow> (nat \<times> string \<times> 's) list" where
  "retrieval w rows questions_embedding =
     (let similarities = similarities_of w rows questions_embedding;
          top = top_indices (argsort w) similarities
      in map (\<lambda>i. (i, df_content (rows ! i), similarities ! i)) top)"


definition stable_argsort :: "('s::linorder) list \<Rightarrow> nat list" where
  "stable_argsort xs = sort_key (\<lambda>i. xs ! i) [0 ..< length xs]"

text \<open>The prompt of lines 105 to 125: the fixed instruction block, then context and
  question.\<close>

definition prompt_lines :: "string list" where
  "prompt_lines =
   [[],
    ''    You are an expert on the Azwaj (Wives of the Prophet). Your goal is to be highly accurate.'',
    [],
    ''    **CRITICAL FACTUAL GUARDRAIL:**'',
    ''    Zaynab Bint Jahsh and Zaynab Bint Khuzaymah are TWO DIFFERENT WIVES.'',
    ''    Zaynab Bint Khuzaymah is the wife known by the title **'' @ [CHR 0x22] @ ''The Mother of the Needy and mother of believers (Umm al-Masakin)'' @ [CHR 0x22] @ ''**.'',
    ''    You MUST use the context to verify facts about the specific wife named in the question.'',
    ''    '',
    ''    **CRITICAL FACTUAL CHECK:**'',
    ''    When answering questions about family relationships (father, husband, daughter, mother, brother), you MUST find the exact term in the context.**DO NOT confuse a wife'' @ [CHR 0x27] @ ''s father with her husband, or vice versa.'',
    ''    ** For a question like '' @ [CHR 0x22] @ ''Whose daughter was Umm Habibah? Name her father?'' @ [CHR 0x22] @ '', you must find the word '' @ [CHR 0x22] @ ''father'' @ [CHR 0x22] @ '' in the context and provide the name associated with it and Habibah was wife of Prophet nicknamed as Ramlah her mother was Safiyyah bint al-Umawiyyah.'',
    [],
    ''    **Answering Instructions:**'',
    ''    1.  Use the context below to answer the user'' @ [CHR 0x27] @ ''s question completely.'',
    ''    2.  If the question is about a wife with a common name (like Zaynab), you MUST check the full name (Jahsh or Khuzaymah) and use ONLY the facts pertaining to that specific wife. **DO NOT merge their biographies.**'',
    ''    3.  If the question asks about '' @ [CHR 0x22] @ ''Mother of the Needy'' @ [CHR 0x22] @ '', you MUST attribute the answer to Zaynab Bint Khuzaymah.'',
    ''    4.  If the context is insufficient, state the information you *do* have briefly.'',
    ''    5.  ... (rest of the instructions remain the same) ...'',
    []]"

definition build_prompt :: "string \<Rightarrow> string \<Rightarrow> string" where
  "build_prompt context users_query =
     join [nl] prompt_lines @ [nl] @
     ''    Context:'' @ [nl, nl] @ context @ [nl, nl] @ ''Question: '' @ users_query @
     [nl, nl] @ ''Answer:'' @ [nl] @ ''    ''"

definition perform_rag_retrieval ::
  "('v, 's) world \<Rightarrow> 'v df_row list option \<Rightarrow> string \<Rightarrow> call list \<times> (py_error + string)" where
  "perform_rag_retrieval w DF users_query =
     (case DF of
        None \<Rightarrow> ([], Inr ''The knowledge base is not loaded.'')
      | Some rows \<Rightarrow>
          (case create_embedding w DF [users_query] of
             (calls, Inl e) \<Rightarrow> (calls, Inl e)
           | (calls, Inr None) \<Rightarrow>
               (calls, Inr ''Failed to create embedding. Is Ollama running and the bge-m3 model available?'')
           | (calls, Inr (Some questions_embedding_list)) \<Rightarrow>
               (case questions_embedding_list of
                  [] \<Rightarrow> (calls, Inl IndexError)
                | questions_embedding # _ \<Rightarrow>
                    if rows = [] then (calls, Inl ValueError)
                    else
                      (let context_chunks = map (\<lambda>(i, c, s). c) (retrieval w rows questions_embedding);
                           context = join [nl, nl] context_chunks;
                           prompt = build_prompt context users_query
                       in case inference w prompt of
                            (calls2, answer) \<Rightarrow> (calls @ calls2, Inr answer)))))"

subsection \<open>A concrete world\<close>

text \<open>\<open>cosine_exact\<close> is scikit-learn's \<open>cosine_similarity\<close> in exact arithmetic: each vector
  is divided by its norm (a zero norm is replaced by 1), then the dot product is taken.
  \<open>example_world\<close> uses it with the stable \<open>argsort\<close>.\<close>

definition dot :: "real list \<Rightarrow> real list \<Rightarrow> real" where
  "dot a b = sum_list (map2 (*) a b)"

definition cosine_exact :: "real list \<Rightarrow> real list \<Rightarrow> real" where
  "cosine_exact a b =
     (let na = sqrt (dot a a); nb = sqrt (dot b b)
      in dot a b / ((if na = 0 then 1 else na) * (if nb = 0 then 1 else nb)))"

definition example_world ::
  "(string list \<Rightarrow> real list list option upstream) \<Rightarrow> (string \<Rightarrow> string option upstream)
     \<Rightarrow> (real list, real) world" where
  "example_world e g =
     \<lparr>embed_service = e, generate_service = g,
      OLLAMA_GENERATE_URL = ''http://localhost:11434/api/generate'',
      cosine_similarity = cosine_exact, argsort = stable_argsort\<rparr>"

section \<open>\<open>bot.py\<close>: the command \<open>azwaj\<close>\<close>

definition MAX_CHARS :: nat where
  "MAX_CHARS = 2000"

text \<open>\<open>range(i, stop, step)\<close> for a positive step.\<close>

function py_range :: "nat \<Rightarrow> nat \<Rightarrow> nat \<Rightarrow> nat list" where
  "py_range i stop step =
     (if 0 < step \<and> i < stop then i # py_range (i + step) stop step else [])"
  by pat_completeness auto
termination
  by (relation "measure (\<lambda>(i, stop, step). stop - i)") auto

text \<open>\<open>str(n)\<close> for a natural number.\<close>

fun str_nat :: "nat \<Rightarrow> string" where
  "str_nat n =
     (if n < 10 then [char_of (48 + n)]
      else str_nat (n div 10) @ [char_of (48 + n mod 10)])"

definition response_chunks :: "string \<Rightarrow> string list" where
  "response_chunks response_text =
     map (\<lambda>i. take MAX_CHARS (drop i response_text)) (py_range 0 (length response_text) MAX_CHARS)"

definition part_header :: "nat \<Rightarrow> nat \<Rightarrow> string" where
  "part_header i n_chunks =
     (if i = 0 then ''**[Detailed Response - Part 1/'' @ str_nat n_chunks @ '']**'' @ [nl]
      else ''**[Part '' @ str_nat (i + 1) @ ''/'' @ str_nat n_chunks @ '']**'' @ [nl])"

text \<open>The messages passed to \<open>ctx.send\<close>, in order.\<close>

definition send_response :: "string \<Rightarrow> string list" where
  "send_response response_text =
     (if length response_text > MAX_CHARS then
        (let chunks = response_chunks response_text
         in map (\<lambda>(i, chunk). part_header i (length chunks) @ chunk) (enumerate 0 chunks))
      else [response_text])"

definition azwaj_query ::
  "('v, 's) world \<Rightarrow> 'v df_row list option \<Rightarrow> string \<Rightarrow> string list" where
  "azwaj_query w DF users_query =
     send_response
       (case snd (perform_rag_retrieval w DF users_query) of
          Inl e \<Rightarrow> ''An internal error occurred while trying to process your request.''
        | Inr final_response \<Rightarrow> final_response)"

section \<open>Notions used in the statements\<close>

text \<open>White-space normalization: the text without its white-space characters.\<close>

definition no_space :: "string \<Rightarrow> string" where
  "no_space s = filter (\<lambda>c. \<not> isspace c) s"

text \<open>A buffer of sentences respects the size limits of the chunker when its joined text is
  at most \<open>max_chunk_size\<close> long, or it is a single sentence, or it was shorter than
  \<open>min_chunk_size\<close> before its last sentence was appended.\<close>

definition within_limits :: "chunker \<Rightarrow> string list \<Rightarrow> bool" where
  "within_limits self current_chunk =
     (length (join '' '' current_chunk) \<le> max_chunk_size self \<or>
      length current_chunk = 1 \<or>
      length (join '' '' (butlast current_chunk)) < min_chunk_size self)"

declare re_findall.simps [simp del]
declare py_range.simps [simp del]
declare str_nat.simps [simp del]

section \<open>The chunk records: \<open>char_count\<close>\<close>

lemma mk_chunk_count: "char_count (mk_chunk i t x) = length (content (mk_chunk i t x))"
  by (simp add: mk_chunk_def)

lemma section_chunks_count:
  "c \<in> set (section_chunks self i sec) \<Longrightarrow> char_count c = length (content c)"
  by (auto simp: section_chunks_def Let_def mk_chunk_count split: if_splits)

lemma create_chunks_count:
  "c \<in> set (create_chunks self text) \<Longrightarrow> char_count c = length (content c)"
  by (auto simp: create_chunks_def section_chunks_count)

lemma fix_chunk_keeps:
  "content (fix_chunk c) = content c" "char_count (fix_chunk c) = char_count c"
  by (simp_all add: fix_chunk_def Let_def)

lemma process_chapters_Inr:
  "process_chapters chapters = Inr all_chunks \<Longrightarrow>
   all_chunks = post_process
     (concat (map (create_chunks \<lparr>max_chunk_size = 800, min_chunk_size = 400\<rparr>) chapters))"
  by (simp add: process_chapters_def Let_def split: if_splits)

lemma process_chapters_count:
  "process_chapters chapters = Inr all_chunks \<Longrightarrow> c \<in> set all_chunks \<Longrightarrow>
   char_count c = length (content c)"
  by (auto dest!: process_chapters_Inr simp: post_process_def fix_chunk_keeps create_chunks_count)

text \<open>
  Claim C8.  Every chunk record that \<open>create_chunks\<close> produces, for any size limits and any
  chapter text, stores in \<open>char_count\<close> the exact length of its \<open>content\<close>; the chunk is
  built by the same constructor in the three branches (un-split section, flushed buffer,
  final buffer).  The correction pass changes neither field, so the same holds for every
  chunk of the store that \<open>process_chapters\<close> returns.
\<close>

theorem char_count_exact:
  "(\<forall>c \<in> set (create_chunks self chapter_text). char_count c = length (content c)) \<and>
   (process_chapters chapters = Inr all_chunks \<longrightarrow>
      (\<forall>c \<in> set all_chunks. char_count c = length (content c)))"
  using create_chunks_count process_chapters_count by blast

theorem char_count_exact_witness:
  "mk_chunk (None, {}) ''Her Marriage'' ''long enough.''
     \<in> set (create_chunks \<lparr>max_chunk_size = 12, min_chunk_size = 4\<rparr>
          (''Intro.'' @ [nl] @ ''Her marriage was. long enough. to split.'')) \<and>
   char_count (mk_chunk (None, {}) ''Her Marriage'' ''long enough.'') = 12 \<and>
   process_chapters [''x''] = Inr [mk_chunk (None, {}) ''Introduction'' ''x''] \<and>
   char_count (mk_chunk (None, {}) ''Introduction'' ''x'') = 1"
proof -
  have h: "mk_chunk (None, {}) ''Her Marriage'' ''long enough.''
     \<in> set (create_chunks \<lparr>max_chunk_size = 12, min_chunk_size = 4\<rparr>
          (''Intro.'' @ [nl] @ ''Her marriage was. long enough. to split.''))"
    by code_simp
  have h2: "process_chapters [''x''] = Inr [mk_chunk (None, {}) ''Introduction'' ''x'']"
    by code_simp
  from h h2 char_count_exact[of "\<lparr>max_chunk_size = 12, min_chunk_size = 4\<rparr>"
        "''Intro.'' @ [nl] @ ''Her marriage was. long enough. to split.''" "[''x'']"
        "[mk_chunk (None, {}) ''Introduction'' ''x'']"]
  show ?thesis by (simp add: mk_chunk_def)
qed

section \<open>The correction pass\<close>

lemma fix_chunk_idem: "fix_chunk (fix_chunk c) = fix_chunk c"
  by (simp add: fix_chunk_def Let_def)

text \<open>
  Claim C6.  The correction pass of \<open>process_chapters\<close> is idempotent: run on its own
  output it changes nothing, so every chunk has the same \<open>wife_name\<close> and \<open>section\<close> (and
  the same other fields) after two passes as after one.
\<close>

theorem post_process_idempotent:
  "post_process (post_process all_chunks) = post_process all_chunks"
  by (simp add: post_process_def fix_chunk_idem)

section \<open>The alias filter\<close>

text \<open>The products \<open>n * 0.7\<close> for the lengths that reach the multiplication, as doubles; a
  count of letters exceeds the double exactly when it exceeds seven tenths of the length.\<close>

lemma float_mul_0_7_values:
  "float_mul 3 double_0_7 = 1182194902184755 / 562949953421312"
  "float_mul 4 double_0_7 = 3152519739159347 / 1125899906842624"
  "float_mul 5 double_0_7 = 7 / 2"
  "float_mul 6 double_0_7 = 1182194902184755 / 281474976710656"
  "float_mul 7 double_0_7 = 5516909543528857 / 1125899906842624"
  "float_mul 8 double_0_7 = 3152519739159347 / 562949953421312"
  "float_mul 9 double_0_7 = 7093169413108531 / 1125899906842624"
  "float_mul 10 double_0_7 = 7"
  "float_mul 11 double_0_7 = 2167357320672051 / 281474976710656"
  "float_mul 12 double_0_7 = 1182194902184755 / 140737488355328"
  "float_mul 13 double_0_7 = 5122844576133939 / 562949953421312"
  "float_mul 14 double_0_7 = 5516909543528857 / 562949953421312"
  "float_mul 15 double_0_7 = 21 / 2"
  "float_mul 16 double_0_7 = 3152519739159347 / 281474976710656"
  "float_mul 17 double_0_7 = 1674776111428403 / 140737488355328"
  "float_mul 18 double_0_7 = 7093169413108531 / 562949953421312"
  "float_mul 19 double_0_7 = 7487234380503449 / 562949953421312"
  "float_mul 20 double_0_7 = 14"
  by code_simp+

lemma rat_lt_nat:
  "((numeral a / numeral b :: rat) < of_nat k) = (numeral a < k * numeral b)"
  "((numeral a :: rat) < of_nat k) = (numeral a < k)"
proof -
  have "((numeral a / numeral b :: rat) < of_nat k) = ((of_nat (numeral a) :: rat) < of_nat (k * numeral b))"
    by (simp add: divide_less_eq)
  then show "((numeral a / numeral b :: rat) < of_nat k) = (numeral a < k * numeral b)"
    by (simp only: of_nat_less_iff)
  have "((numeral a :: rat) < of_nat k) = ((of_nat (numeral a) :: rat) < of_nat k)"
    by simp
  then show "((numeral a :: rat) < of_nat k) = (numeral a < k)"
    by (simp only: of_nat_less_iff)
qed

lemma float_mul_0_7_cmp:
  "(float_mul 3 double_0_7 < of_nat k) = (21 < 10 * k)"
  "(float_mul 4 double_0_7 < of_nat k) = (28 < 10 * k)"
  "(float_mul 5 double_0_7 < of_nat k) = (35 < 10 * k)"
  "(float_mul 6 double_0_7 < of_nat k) = (42 < 10 * k)"
  "(float_mul 7 double_0_7 < of_nat k) = (49 < 10 * k)"
  "(float_mul 8 double_0_7 < of_nat k) = (56 < 10 * k)"
  "(float_mul 9 double_0_7 < of_nat k) = (63 < 10 * k)"
  "(float_mul 10 double_0_7 < of_nat k) = (70 < 10 * k)"
  "(float_mul 11 double_0_7 < of_nat k) = (77 < 10 * k)"
  "(float_mul 12 double_0_7 < of_nat k) = (84 < 10 * k)"
  "(float_mul 13 double_0_7 < of_nat k) = (91 < 10 * k)"
  "(float_mul 14 double_0_7 < of_nat k) = (98 < 10 * k)"
  "(float_mul 15 double_0_7 < of_nat k) = (105 < 10 * k)"
  "(float_mul 16 double_0_7 < of_nat k) = (112 < 10 * k)"
  "(float_mul 17 double_0_7 < of_nat k) = (119 < 10 * k)"
  "(float_mul 18 double_0_7 < of_nat k) = (126 < 10 * k)"
  "(float_mul 19 double_0_7 < of_nat k) = (133 < 10 * k)"
  "(float_mul 20 double_0_7 < of_nat k) = (140 < 10 * k)"
  unfolding float_mul_0_7_values rat_lt_nat by (intro iffI; linarith)+

lemma float_mul_0_7_less:
  assumes "3 \<le> n" "n \<le> 20"
  shows "(float_mul (of_nat n) double_0_7 < of_nat k) = (7 * n < 10 * k)"
proof -
  have e: "[3 ..< 21] = [3, 4, 5, 6, 7, 8, 9, 10, 11, 12, 13, 14, 15, 16, 17, 18, 19, 20::nat]"
    by (simp add: upt_rec)
  have "n \<in> set [3 ..< 21]"
    using assms unfolding set_upt atLeastLessThan_iff by linarith
  then have "n \<in> set [3, 4, 5, 6, 7, 8, 9, 10, 11, 12, 13, 14, 15, 16, 17, 18, 19, 20]"
    by (simp only: e)
  then have "n \<in> {3, 4, 5, 6, 7, 8, 9, 10, 11, 12, 13, 14, 15, 16, 17, 18, 19, 20}"
    by (simp only: list.set)
  then show ?thesis
    by (elim insertE emptyE) (simp_all only: of_nat_numeral float_mul_0_7_cmp mult_numeral_left_semiring_numeral numeral_times_numeral, simp_all)
qed

lemma alias_ok_iff:
  "alias_ok alias = (3 \<le> length alias \<and> length alias \<le> 20 \<and>
     7 * length alias < 10 * length (filter isalpha alias))"
  using float_mul_0_7_less[of "length alias" "length (filter isalpha alias)"]
  by (auto simp: alias_ok_def)

text \<open>
  Claim C7, as stated, fails at exactly 70 percent.  The candidate \<open>ab c d efg\<close>, captured
  after \<open>also known as\<close>, has 10 characters of which 7 are letters; it is not accepted, and
  the alias set is empty.
\<close>

theorem seventy_percent_counterexample:
  "alias_candidates ''She was also known as ab c d efg.'' = [''ab c d efg''] \<and>
   length (strip ''ab c d efg'') = 10 \<and>
   length (filter isalpha (strip ''ab c d efg'')) = 7 \<and>
   snd (extract_wife_info ''She was also known as ab c d efg.'') = {}"
  by code_simp

text \<open>
  Claim C7, amended.  A candidate captured by one of the four introduction phrases is
  accepted into the alias set (title-cased, duplicates collapsed since the result is a set)
  if and only if its stripped length is between 3 and 20 inclusive and strictly more than
  70 percent of its characters are alphabetic; so a fully alphabetic candidate of 5
  characters is accepted, and one of 21 characters or with at most 70 percent of letters is
  rejected.
\<close>

theorem alias_filter:
  "alias_ok alias = (3 \<le> length alias \<and> length alias \<le> 20 \<and>
     7 * length alias < 10 * length (filter isalpha alias)) \<and>
   (x \<in> snd (extract_wife_info text)) =
     (\<exists>m \<in> set (alias_candidates text).
        x = title (strip m) \<and> 3 \<le> length (strip m) \<and> length (strip m) \<le> 20 \<and>
        7 * length (strip m) < 10 * length (filter isalpha (strip m)))"
proof -
  have "(x \<in> snd (extract_wife_info text)) =
     (\<exists>m \<in> set (alias_candidates text). x = title (strip m) \<and> alias_ok (strip m))"
    by (auto simp: extract_wife_info_def)
  then show ?thesis by (simp only: alias_ok_iff)
qed

theorem alias_filter_witness:
  "''Humayra'' \<in> snd (extract_wife_info ''She was called Humayra, also known as ab c d e.'') \<and>
   ''Ab C D E'' \<notin> snd (extract_wife_info ''She was called Humayra, also known as ab c d e.'') \<and>
   alias_ok ''abcde'' \<and> \<not> alias_ok ''abcdefghijklmnopqrstu''"
proof -
  let ?t = "''She was called Humayra, also known as ab c d e.''"
  have a: "\<exists>m \<in> set (alias_candidates ?t).
        ''Humayra'' = title (strip m) \<and> 3 \<le> length (strip m) \<and> length (strip m) \<le> 20 \<and>
        7 * length (strip m) < 10 * length (filter isalpha (strip m))"
    by code_simp
  have b: "\<not> (\<exists>m \<in> set (alias_candidates ?t).
        ''Ab C D E'' = title (strip m) \<and> 3 \<le> length (strip m) \<and> length (strip m) \<le> 20 \<and>
        7 * length (strip m) < 10 * length (filter isalpha (strip m)))"
    by code_simp
  have c: "3 \<le> length ''abcde'' \<and> length ''abcde'' \<le> 20 \<and>
     7 * length ''abcde'' < 10 * length (filter isalpha ''abcde'')"
    by code_simp
  have d: "\<not> (3 \<le> length ''abcdefghijklmnopqrstu'' \<and> length ''abcdefghijklmnopqrstu'' \<le> 20 \<and>
     7 * length ''abcdefghijklmnopqrstu'' < 10 * length (filter isalpha ''abcdefghijklmnopqrstu''))"
    by code_simp
  from a alias_filter[of "''abcde''" "''Humayra''" ?t]
  have 1: "''Humayra'' \<in> snd (extract_wife_info ?t)" by blast
  from b alias_filter[of "''abcde''" "''Ab C D E''" ?t]
  have 2: "''Ab C D E'' \<notin> snd (extract_wife_info ?t)" by blast
  from c alias_filter[of "''abcde''" "''Humayra''" ?t]
  have 3: "alias_ok ''abcde''" by blast
  from d alias_filter[of "''abcdefghijklmnopqrstu''" "''Humayra''" ?t]
  have 4: "\<not> alias_ok ''abcdefghijklmnopqrstu''" by blast
  from 1 2 3 4 show ?thesis by blast
qed

section \<open>No text is lost: sections, sentences, chunks\<close>

lemma isspace_space [simp]: "isspace (CHR '' '')" "isspace nl"
  by (simp_all add: isspace_def nl_def)

lemma no_space_simps [simp]: "no_space [] = []" "no_space (a @ b) = no_space a @ no_space b"
  "no_space (c # s) = (if isspace c then no_space s else c # no_space s)"
  by (simp_all add: no_space_def)

lemma no_space_concat: "no_space (concat xs) = concat (map no_space xs)"
  by (induction xs) simp_all

lemma no_space_join: "no_space (join '' '' xs) = concat (map no_space xs)"
  by (induction "'' ''" xs rule: join.induct) simp_all

lemma no_space_dropWhile: "no_space (dropWhile isspace s) = no_space s"
  by (induction s) simp_all

lemma no_space_rev: "no_space (rev s) = rev (no_space s)"
  by (simp add: no_space_def rev_filter)

lemma no_space_strip: "no_space (strip s) = no_space s"
  by (simp add: strip_def no_space_rev no_space_dropWhile)

lemma split_nl_nonempty: "split_nl t \<noteq> []"
  by (induction t) (simp_all split: list.splits)

lemma no_space_split_nl: "concat (map no_space (split_nl t)) = no_space t"
proof (induction t)
  case Nil
  then show ?case by simp
next
  case (Cons c cs)
  then show ?case
    using split_nl_nonempty[of cs] by (cases "split_nl cs") auto
qed

lemma no_space_paragraphs: "concat (map no_space (paragraphs_of t)) = no_space t"
proof -
  have "concat (map no_space (map strip (filter (\<lambda>p. strip p \<noteq> []) ps))) = concat (map no_space ps)" for ps
  proof (induction ps)
    case Nil
    then show ?case by simp
  next
    case (Cons p ps)
    have "strip p = [] \<Longrightarrow> no_space p = []" by (metis no_space_strip no_space_simps(1))
    then show ?case using Cons by (simp add: no_space_strip)
  qed
  then show ?thesis by (simp add: paragraphs_of_def no_space_split_nl)
qed

lemma sections_loop_concat:
  "concat (map snd (sections_loop ps secs cur)) = concat (map snd secs) @ snd cur @ ps"
  by (induction ps arbitrary: secs cur) (auto split: option.splits)

lemma split_into_sections_concat:
  "concat (map snd (split_into_sections t)) = paragraphs_of t"
  by (simp add: split_into_sections_def sections_loop_concat)

lemma pack_concat:
  "concat (pack self ss cur cl) = cur @ filter (\<lambda>s. s \<noteq> []) (map strip ss)"
  by (induction ss arbitrary: cur cl) (auto simp: Let_def)

lemma no_space_split_sentences: "concat (map no_space (split_sentences prev s)) = no_space s"
proof (induction prev s rule: split_sentences.induct)
  case (1 prev)
  then show ?case by simp
next
  case (2 prev c cs)
  show ?case
  proof (cases "isspace c \<and> (case prev of None \<Rightarrow> False | Some p \<Rightarrow> is_ender p)")
    case True
    then show ?thesis using 2(1) by (simp add: no_space_dropWhile)
  next
    case False
    then show ?thesis using 2(2) by (cases "split_sentences (Some c) cs") auto
  qed
qed

lemma no_space_filter_strip:
  "concat (map no_space (filter (\<lambda>s. s \<noteq> []) (map strip ss))) = concat (map no_space ss)"
proof (induction ss)
  case Nil
  then show ?case by simp
next
  case (Cons s ss)
  have "strip s = [] \<Longrightarrow> no_space s = []" by (metis no_space_strip no_space_simps(1))
  then show ?case using Cons by (simp add: no_space_strip)
qed

lemma no_space_pack:
  "concat (map (\<lambda>b. no_space (join '' '' b)) (pack self ss [] 0)) = concat (map no_space ss)"
proof -
  have "concat (map (\<lambda>b. no_space (join '' '' b)) bs) = concat (map no_space (concat bs))" for bs
    by (induction bs) (simp_all add: no_space_join)
  then show ?thesis by (simp add: pack_concat no_space_filter_strip)
qed

lemma content_mk_chunk [simp]: "content (mk_chunk i t x) = x"
  by (simp add: mk_chunk_def)

lemma no_space_section_chunks:
  "concat (map (\<lambda>c. no_space (content c)) (section_chunks self info sec)) = concat (map no_space (snd sec))"
proof (cases "length (join '' '' (snd sec)) \<le> max_chunk_size self")
  case True
  then show ?thesis by (simp add: section_chunks_def no_space_join)
next
  case False
  then have "concat (map (\<lambda>c. no_space (content c)) (section_chunks self info sec))
      = concat (map (\<lambda>b. no_space (join '' '' b)) (pack self (split_sentences None (join '' '' (snd sec))) [] 0))"
    by (simp add: section_chunks_def Let_def comp_def)
  also have "\<dots> = concat (map no_space (split_sentences None (join '' '' (snd sec))))"
    by (rule no_space_pack)
  also have "\<dots> = no_space (join '' '' (snd sec))" by (rule no_space_split_sentences)
  also have "\<dots> = concat (map no_space (snd sec))" by (rule no_space_join)
  finally show ?thesis .
qed

lemma no_space_create_chunks:
  "no_space (concat (map content (create_chunks self t))) = no_space t"
proof -
  have "concat (map (\<lambda>c. no_space (content c)) (concat (map (section_chunks self info) secs)))
        = concat (map no_space (concat (map snd secs)))" for info secs
    by (induction secs) (simp_all add: no_space_section_chunks)
  then have "concat (map (\<lambda>c. no_space (content c)) (create_chunks self t)) = concat (map no_space (paragraphs_of t))"
    by (simp add: create_chunks_def split_into_sections_concat)
  then show ?thesis
    by (simp add: no_space_concat comp_def no_space_paragraphs)
qed

lemma no_space_process_chapters:
  assumes "process_chapters chapters = Inr all_chunks"
  shows "no_space (concat (map content all_chunks)) = no_space (concat chapters)"
proof -
  have "map content (post_process cs) = map content cs" for cs
    by (simp add: post_process_def fix_chunk_keeps comp_def)
  moreover have "no_space (concat (map content (concat (map (create_chunks self) chs)))) = no_space (concat chs)" for self chs
  proof (induction chs)
    case Nil
    then show ?case by simp
  next
    case (Cons ch chs)
    then show ?case using no_space_create_chunks[of self ch] by simp
  qed
  ultimately show ?thesis using process_chapters_Inr[OF assms] by simp
qed

text \<open>
  Claim C5.  For every chapter text and all size limits, the contents of the emitted
  chunks, concatenated in store order, are, up to white space, the concatenation of the
  chapter's non-empty lines in their order, which in turn is, up to white space, the chapter
  text itself: splitting into sections and packing sentences drops, duplicates and reorders
  nothing.  The same holds for the whole store that \<open>process_chapters\<close> returns and the
  chapters in order.
\<close>

theorem content_preserved:
  "no_space (concat (map content (create_chunks self chapter_text))) = no_space (concat (paragraphs_of chapter_text)) \<and>
   no_space (concat (paragraphs_of chapter_text)) = no_space chapter_text \<and>
   (process_chapters chapters = Inr all_chunks \<longrightarrow>
      no_space (concat (map content all_chunks)) = no_space (concat chapters))"
proof -
  have "no_space (concat (paragraphs_of chapter_text)) = no_space chapter_text"
    by (simp only: no_space_concat no_space_paragraphs)
  then show ?thesis
    using no_space_create_chunks[of self chapter_text] no_space_process_chapters[of chapters all_chunks]
    by simp
qed

theorem content_preserved_witness:
  "process_chapters [''Intro text.'' @ [nl] @ ''  Her marriage. She married.'']
     = Inr [mk_chunk (None, {}) ''Introduction'' ''Intro text.'',
            mk_chunk (None, {}) ''Her Marriage'' ''Her marriage. She married.''] \<and>
   no_space (''Intro text.'' @ ''Her marriage. She married.'')
     = no_space (''Intro text.'' @ [nl] @ ''  Her marriage. She married.'')"
proof -
  let ?t = "''Intro text.'' @ [nl] @ ''  Her marriage. She married.''"
  let ?cs = "[mk_chunk (None, {}) ''Introduction'' ''Intro text.'',
            mk_chunk (None, {}) ''Her Marriage'' ''Her marriage. She married.'']"
  have h: "process_chapters [?t] = Inr ?cs"
    by code_simp
  from h content_preserved[of "\<lparr>max_chunk_size = 800, min_chunk_size = 400\<rparr>" ?t "[?t]" ?cs]
  have "no_space (concat (map content ?cs)) = no_space (concat [?t])"
    by blast
  then have "no_space (''Intro text.'' @ ''Her marriage. She married.'') = no_space ?t"
    by (simp add: mk_chunk_def)
  with h show ?thesis by blast
qed

section \<open>The size limits of the sentence packer\<close>

lemma length_join_snoc:
  "b \<noteq> [] \<Longrightarrow> length (join '' '' (b @ [s])) = length (join '' '' b) + 1 + length s"
  by (induction "'' ''" b rule: join.induct) simp_all

text \<open>The loop invariant: \<open>first\<close> says that no flush has happened yet in the section; the
  running length then counts one separator more than the joined buffer has.\<close>

lemma pack_bound:
  assumes "current_length = length (join '' '' cur) + (if first \<and> cur \<noteq> [] then 1 else 0)"
    and "within_limits self cur \<or> (\<not> first \<and> length (join '' '' cur) = max_chunk_size self + 1)"
    and "first \<or> cur \<noteq> []"
    and "k < length (pack self ss cur current_length)"
  shows "within_limits self (pack self ss cur current_length ! k) \<or>
         ((0 < k \<or> \<not> first) \<and> length (join '' '' (pack self ss cur current_length ! k)) = max_chunk_size self + 1)"
  using assms
proof (induction ss arbitrary: cur current_length first k)
  case Nil
  then show ?case by (auto split: if_splits)
next
  case (Cons s ss)
  let ?sent = "strip s"
  show ?case
  proof (cases "?sent = []")
    case True
    then show ?thesis using Cons.IH[of current_length cur first k] Cons.prems by (simp add: Let_def)
  next
    case ne: False
    show ?thesis
    proof (cases "current_length + length ?sent > max_chunk_size self \<and> current_length \<ge> min_chunk_size self")
      case True
      then have eq: "pack self (s # ss) cur current_length = cur # pack self ss [?sent] (length ?sent)"
        using ne by (simp add: Let_def)
      show ?thesis
      proof (cases k)
        case 0
        then show ?thesis using eq Cons.prems(2) by auto
      next
        case (Suc k')
        have "within_limits self (pack self ss [?sent] (length ?sent) ! k') \<or>
          ((0 < k' \<or> \<not> False) \<and> length (join '' '' (pack self ss [?sent] (length ?sent) ! k')) = max_chunk_size self + 1)"
          using Cons.prems(4) eq Suc
          by (intro Cons.IH) (auto simp: within_limits_def)
        then show ?thesis using eq Suc by auto
      qed
    next
      case False
      then have eq: "pack self (s # ss) cur current_length
          = pack self ss (cur @ [?sent]) (current_length + length ?sent + 1)"
        using ne by (auto simp: Let_def)
      have len: "current_length + length ?sent + 1
          = length (join '' '' (cur @ [?sent])) + (if first \<and> cur @ [?sent] \<noteq> [] then 1 else 0)"
        using Cons.prems(1,3) by (cases "cur = []") (auto simp: length_join_snoc)
      have lim: "within_limits self (cur @ [?sent]) \<or>
          (\<not> first \<and> length (join '' '' (cur @ [?sent])) = max_chunk_size self + 1)"
      proof (cases "cur = []")
        case True
        then show ?thesis by (simp add: within_limits_def)
      next
        case cne: False
        then show ?thesis
          using False Cons.prems(1)
          by (auto simp: within_limits_def length_join_snoc split: if_splits)
      qed
      have ne': "first \<or> cur @ [?sent] \<noteq> []" by simp
      show ?thesis
        using Cons.IH[OF len lim ne', of k] Cons.prems(4) eq by simp
    qed
  qed
qed


lemma content_section_chunks:
  "map content (section_chunks self info sec) =
     (if length (join '' '' (snd sec)) \<le> max_chunk_size self then [join '' '' (snd sec)]
      else map (join '' '') (pack self (split_sentences None (join '' '' (snd sec))) [] 0))"
  by (simp add: section_chunks_def Let_def comp_def)

lemma content_create_chunks:
  "map content (create_chunks self chapter_text) =
     concat (map (\<lambda>sec. map content (section_chunks self (extract_wife_info chapter_text) sec))
                 (split_into_sections chapter_text))"
  by (simp add: create_chunks_def map_concat comp_def)

lemma char_count_section_chunks:
  "map char_count (section_chunks self info sec) = map length (map content (section_chunks self info sec))"
  by (simp add: section_chunks_def Let_def comp_def mk_chunk_def)

lemma char_count_process_single:
  assumes "split_into_sections chapter_text = [sec]"
    and "length (join '' '' (snd sec)) > 800"
    and "pack \<lparr>max_chunk_size = 800, min_chunk_size = 400\<rparr>
            (split_sentences None (join '' '' (snd sec))) [] 0 = buffers"
    and "buffers \<noteq> []"
  shows "map_sum id (map char_count) (process_chapters [chapter_text])
           = Inr (map (\<lambda>b. length (join '' '' b)) buffers)"
proof -
  let ?cfg = "\<lparr>max_chunk_size = 800, min_chunk_size = 400\<rparr>"
  let ?cs = "section_chunks ?cfg (extract_wife_info chapter_text) sec"
  have cs: "create_chunks ?cfg chapter_text = ?cs"
    using assms(1) by (simp add: create_chunks_def)
  have m: "map char_count ?cs = map (\<lambda>b. length (join '' '' b)) buffers"
    using assms(2,3) by (simp add: char_count_section_chunks content_section_chunks)
  then have ne: "?cs \<noteq> []" using assms(4) by auto
  have pp: "map char_count (post_process ?cs) = map char_count ?cs"
    by (simp add: post_process_def fix_chunk_keeps comp_def)
  have "process_chapters [chapter_text] = Inr (post_process ?cs)"
    using ne by (simp add: process_chapters_def Let_def cs post_process_def)
  then show ?thesis by (simp add: pp m)
qed

text \<open>
  Claim C2, as stated, fails.  With the limits 800 and 400 of \<open>process_chapters\<close>, a chapter
  of three sentences of 300, 600 and 100 characters gives a first chunk of 901 characters:
  the buffer holds 300 characters (less than 400) when the second sentence arrives, so the
  sentence is appended whatever its length.  That chunk is longer than 800, it is not the
  last chunk of its section, and it is made of two sentences, neither longer than 800.
\<close>

theorem oversized_chunk_counterexample:
  "pack \<lparr>max_chunk_size = 800, min_chunk_size = 400\<rparr>
     (split_sentences None
        (replicate 299 (CHR ''a'') @ ''. '' @ replicate 599 (CHR ''b'') @ ''. '' @ replicate 99 (CHR ''c'') @ ''.''))
     [] 0
   = [[replicate 299 (CHR ''a'') @ ''.'', replicate 599 (CHR ''b'') @ ''.''], [replicate 99 (CHR ''c'') @ ''.'']] \<and>
   map_sum id (map char_count) (process_chapters
     [replicate 299 (CHR ''a'') @ ''. '' @ replicate 599 (CHR ''b'') @ ''. '' @ replicate 99 (CHR ''c'') @ ''.''])
   = Inr [901, 100]"
proof -
  let ?t = "replicate 299 (CHR ''a'') @ ''. '' @ replicate 599 (CHR ''b'') @ ''. '' @ replicate 99 (CHR ''c'') @ ''.''"
  have p: "pack \<lparr>max_chunk_size = 800, min_chunk_size = 400\<rparr> (split_sentences None ?t) [] 0
     = [[replicate 299 (CHR ''a'') @ ''.'', replicate 599 (CHR ''b'') @ ''.''], [replicate 99 (CHR ''c'') @ ''.'']]"
    by code_simp
  have s: "split_into_sections ?t = [(''Introduction'', [?t])]"
    by code_simp
  have l: "length (join '' '' (snd (''Introduction'', [?t]))) > 800" by simp
  have p': "pack \<lparr>max_chunk_size = 800, min_chunk_size = 400\<rparr>
      (split_sentences None (join '' '' (snd (''Introduction'', [?t])))) [] 0
     = [[replicate 299 (CHR ''a'') @ ''.'', replicate 599 (CHR ''b'') @ ''.''], [replicate 99 (CHR ''c'') @ ''.'']]"
    by (simp only: snd_conv join.simps p)
  have "map_sum id (map char_count) (process_chapters [?t]) = Inr [901, 100]"
    using char_count_process_single[OF s l p'] by simp
  with p show ?thesis by blast
qed

text \<open>
  Claim C2, amended.  The contents of the chunks of a chapter are those of its sections in
  order.  A section whose joined text is at most \<open>max_chunk_size\<close> long gives one chunk with
  that text.  In a longer section the chunks are the buffers of the packer joined by a
  space, and every buffer is at most \<open>max_chunk_size\<close> long when joined, except when it is a
  single sentence, or when it was shorter than \<open>min_chunk_size\<close> before its last sentence
  was appended.  For a buffer after the first flush of a section, a joined length of exactly
  \<open>max_chunk_size + 1\<close> is left outside the statement.
\<close>

theorem chunk_size_limit:
  "map content (create_chunks self chapter_text) =
     concat (map (\<lambda>sec. map content (section_chunks self (extract_wife_info chapter_text) sec))
                 (split_into_sections chapter_text)) \<and>
   (length (join '' '' (snd sec)) \<le> max_chunk_size self \<longrightarrow>
      map content (section_chunks self info sec) = [join '' '' (snd sec)]) \<and>
   (length (join '' '' (snd sec)) > max_chunk_size self \<longrightarrow>
      (let buffers = pack self (split_sentences None (join '' '' (snd sec))) [] 0 in
         map content (section_chunks self info sec) = map (join '' '') buffers \<and>
         (\<forall>k < length buffers.
            within_limits self (buffers ! k) \<or>
            (0 < k \<and> length (join '' '' (buffers ! k)) = max_chunk_size self + 1))))"
proof -
  have "within_limits self (pack self ss [] 0 ! k) \<or>
        (0 < k \<and> length (join '' '' (pack self ss [] 0 ! k)) = max_chunk_size self + 1)"
    if "k < length (pack self ss [] 0)" for ss k
    using pack_bound[where first=True and cur="[]" and current_length=0 and self=self and ss=ss and k=k] that
    by (simp add: within_limits_def)
  then show ?thesis
    using content_create_chunks[of self chapter_text] content_section_chunks[of self info sec]
    by (simp add: Let_def)
qed

theorem chunk_size_limit_witness:
  "length (join '' '' (snd (''Introduction'', [''abc'']))) \<le> max_chunk_size \<lparr>max_chunk_size = 8, min_chunk_size = 4\<rparr> \<and>
   map content (section_chunks \<lparr>max_chunk_size = 8, min_chunk_size = 4\<rparr> (None, {}) (''Introduction'', [''abc''])) = [''abc''] \<and>
   length (join '' '' (snd (''Introduction'', [''a. bcdef. gh.''])))
     > max_chunk_size \<lparr>max_chunk_size = 8, min_chunk_size = 4\<rparr> \<and>
   pack \<lparr>max_chunk_size = 8, min_chunk_size = 4\<rparr> (split_sentences None ''a. bcdef. gh.'') [] 0
     = [[''a.'', ''bcdef.''], [''gh.'']] \<and>
   map content (section_chunks \<lparr>max_chunk_size = 8, min_chunk_size = 4\<rparr> (None, {})
      (''Introduction'', [''a. bcdef. gh.''])) = [''a. bcdef.'', ''gh.''] \<and>
   within_limits \<lparr>max_chunk_size = 8, min_chunk_size = 4\<rparr> [''a.'', ''bcdef.'']"
proof -
  let ?c = "\<lparr>max_chunk_size = 8, min_chunk_size = 4\<rparr>"
  have p: "pack ?c (split_sentences None ''a. bcdef. gh.'') [] 0 = [[''a.'', ''bcdef.''], [''gh.'']]"
    by code_simp
  have s: "length (join '' '' (snd (''Introduction'', [''abc'']))) \<le> max_chunk_size ?c" by simp
  have l: "length (join '' '' (snd (''Introduction'', [''a. bcdef. gh.'']))) > max_chunk_size ?c" by simp
  from s chunk_size_limit[of ?c "''abc''" "(''Introduction'', [''abc''])" "(None, {})"]
  have 1: "map content (section_chunks ?c (None, {}) (''Introduction'', [''abc''])) = [''abc'']"
    by simp
  from l chunk_size_limit[of ?c "''abc''" "(''Introduction'', [''a. bcdef. gh.''])" "(None, {})"]
  have 2: "map content (section_chunks ?c (None, {}) (''Introduction'', [''a. bcdef. gh.'']))
            = map (join '' '') (pack ?c (split_sentences None ''a. bcdef. gh.'') [] 0)"
    and 3: "\<forall>k < length (pack ?c (split_sentences None ''a. bcdef. gh.'') [] 0).
            within_limits ?c (pack ?c (split_sentences None ''a. bcdef. gh.'') [] 0 ! k) \<or>
            (0 < k \<and> length (join '' '' (pack ?c (split_sentences None ''a. bcdef. gh.'') [] 0 ! k)) = max_chunk_size ?c + 1)"
    by (simp_all add: Let_def)
  from 3 have 4: "within_limits ?c [''a.'', ''bcdef.'']"
    unfolding p by (auto dest: spec[of _ 0])
  from 2 have 5: "map content (section_chunks ?c (None, {}) (''Introduction'', [''a. bcdef. gh.'']))
            = [''a. bcdef.'', ''gh.'']"
    unfolding p by simp
  from s l p 1 4 5 show ?thesis by blast
qed

section \<open>The lower limit at a flush\<close>

text \<open>What the guard \<open>current_length >= min_chunk_size\<close> gives for a buffer that is flushed
  before the end of its section: its joined length is at least \<open>min_chunk_size\<close>, but for the
  first buffer of the section only at least \<open>min_chunk_size - 1\<close>.\<close>

lemma pack_flush_min:
  assumes "current_length = length (join '' '' cur) + (if first \<and> cur \<noteq> [] then 1 else 0)"
    and "first \<or> cur \<noteq> []"
    and "Suc k < length (pack self ss cur current_length)"
  shows "min_chunk_size self
           \<le> length (join '' '' (pack self ss cur current_length ! k)) + (if k = 0 \<and> first then 1 else 0)"
  using assms
proof (induction ss arbitrary: cur current_length first k)
  case Nil
  then show ?case by (auto split: if_splits)
next
  case (Cons s ss)
  let ?sent = "strip s"
  show ?case
  proof (cases "?sent = []")
    case True
    then show ?thesis using Cons.IH[of current_length cur first k] Cons.prems by (simp add: Let_def)
  next
    case ne: False
    show ?thesis
    proof (cases "current_length + length ?sent > max_chunk_size self \<and> current_length \<ge> min_chunk_size self")
      case True
      then have eq: "pack self (s # ss) cur current_length = cur # pack self ss [?sent] (length ?sent)"
        using ne by (simp add: Let_def)
      show ?thesis
      proof (cases k)
        case 0
        then show ?thesis using eq True Cons.prems(1) by (auto split: if_splits)
      next
        case (Suc k')
        have "min_chunk_size self
           \<le> length (join '' '' (pack self ss [?sent] (length ?sent) ! k')) + (if k' = 0 \<and> False then 1 else 0)"
          using Cons.prems(3) eq Suc
          by (intro Cons.IH) auto
        then show ?thesis using eq Suc by simp
      qed
    next
      case False
      then have eq: "pack self (s # ss) cur current_length
          = pack self ss (cur @ [?sent]) (current_length + length ?sent + 1)"
        using ne by (auto simp: Let_def)
      have len: "current_length + length ?sent + 1
          = length (join '' '' (cur @ [?sent])) + (if first \<and> cur @ [?sent] \<noteq> [] then 1 else 0)"
        using Cons.prems(1,2) by (cases "cur = []") (auto simp: length_join_snoc)
      have ne': "first \<or> cur @ [?sent] \<noteq> []" by simp
      show ?thesis
        using Cons.IH[OF len ne', of k] Cons.prems(3) eq by simp
    qed
  qed
qed

text \<open>
  Claim C3 on the code: with the limits 800 and 400 of \<open>process_chapters\<close>, a chapter of two
  sentences of 399 and 500 characters is cut into chunks of 399 and 500 characters.  The
  first chunk is flushed before the end of its section and is shorter than
  \<open>min_chunk_size\<close>: the running length of the first buffer counts a separator after its
  last sentence, so the guard sees 400.
\<close>

theorem flush_below_min_example:
  "pack \<lparr>max_chunk_size = 800, min_chunk_size = 400\<rparr>
     (split_sentences None (replicate 398 (CHR ''a'') @ ''. '' @ replicate 499 (CHR ''b'') @ ''.'')) [] 0
   = [[replicate 398 (CHR ''a'') @ ''.''], [replicate 499 (CHR ''b'') @ ''.'']] \<and>
   map_sum id (map char_count)
     (process_chapters [replicate 398 (CHR ''a'') @ ''. '' @ replicate 499 (CHR ''b'') @ ''.''])
   = Inr [399, 500]"
proof -
  let ?t = "replicate 398 (CHR ''a'') @ ''. '' @ replicate 499 (CHR ''b'') @ ''.''"
  have p: "pack \<lparr>max_chunk_size = 800, min_chunk_size = 400\<rparr> (split_sentences None ?t) [] 0
     = [[replicate 398 (CHR ''a'') @ ''.''], [replicate 499 (CHR ''b'') @ ''.'']]"
    by code_simp
  have s: "split_into_sections ?t = [(''Introduction'', [?t])]"
    by code_simp
  have l: "length (join '' '' (snd (''Introduction'', [?t]))) > 800" by simp
  have p': "pack \<lparr>max_chunk_size = 800, min_chunk_size = 400\<rparr>
      (split_sentences None (join '' '' (snd (''Introduction'', [?t])))) [] 0
     = [[replicate 398 (CHR ''a'') @ ''.''], [replicate 499 (CHR ''b'') @ ''.'']]"
    by (simp only: snd_conv join.simps p)
  have "map_sum id (map char_count) (process_chapters [?t]) = Inr [399, 500]"
    using char_count_process_single[OF s l p'] by simp
  with p show ?thesis by blast
qed

section \<open>Retrieval: the three best chunks\<close>








section \<open>The data not loaded, the services failing\<close>

text \<open>
  Claim C4, as stated, fails: with nothing loaded (\<open>DF is None\<close>) the function does not
  fail; it returns a string in the way it returns an answer.
\<close>

theorem not_loaded_counterexample:
  "perform_rag_retrieval (example_world (\<lambda>x. RequestException) (\<lambda>x. RequestException)) None
     ''Who was Khadijah?'' = ([], Inr ''The knowledge base is not loaded.'') \<and>
   \<not> isl (snd (perform_rag_retrieval (example_world (\<lambda>x. RequestException) (\<lambda>x. RequestException))
     None ''Who was Khadijah?''))"
  by (simp add: perform_rag_retrieval_def)

text \<open>
  Claim C4, amended.  When nothing is loaded, \<open>perform_rag_retrieval\<close> makes no external
  call and returns, as its ordinary result, the fixed message
  \<open>The knowledge base is not loaded.\<close>; it returns neither an error nor an empty list.
\<close>

theorem not_loaded_message:
  "perform_rag_retrieval w None users_query = ([], Inr ''The knowledge base is not loaded.'')"
  by (simp add: perform_rag_retrieval_def)

lemma empty_frame_raises:
  "embed_service w [q] = Response (Some (v # vs)) \<Longrightarrow>
   perform_rag_retrieval w (Some []) q = ([EmbedCall [q]], Inl ValueError)"
  by (simp add: perform_rag_retrieval_def create_embedding_def)

text \<open>
  Claim C9, as stated, fails: when the generation call raises, the caller receives the
  apology sentence as the answer, and when the embedding call raises, it receives the
  sentence \<open>Failed to create embedding. ...\<close>; both are ordinary string results.
\<close>

theorem upstream_failure_counterexample:
  "snd (perform_rag_retrieval
     (example_world (\<lambda>x. Response (Some [[1, 0]])) (\<lambda>x. RequestException))
     (Some [\<lparr>df_content = ''c0'', chunk_embeddings = [1, 0]\<rparr>]) ''Who was Khadijah?'')
   = Inr (''Sorry, I couldn'' @ [CHR 0x27] @ ''t connect to the Ollama server or the request timed out.'') \<and>
   snd (perform_rag_retrieval
     (example_world (\<lambda>x. RequestException) (\<lambda>x. RequestException))
     (Some [\<lparr>df_content = ''c0'', chunk_embeddings = [1, 0]\<rparr>]) ''Who was Khadijah?'')
   = Inr ''Failed to create embedding. Is Ollama running and the bge-m3 model available?''"
  by (simp add: perform_rag_retrieval_def create_embedding_def inference_def example_world_def)

text \<open>
  Claim C9, amended.  When the embedding call raises a \<open>RequestException\<close>, the function
  makes no further call and returns the fixed sentence \<open>Failed to create embedding. Is
  Ollama running and the bge-m3 model available?\<close> as an ordinary result.  When the
  embedding succeeds and the generation call raises, it returns the fixed apology sentence
  as an ordinary result.  In every run each of the two services is called at most once:
  nothing is retried.
\<close>

theorem upstream_failure_messages:
  "(DF \<noteq> None \<and> embed_service w [q] = RequestException \<longrightarrow>
      perform_rag_retrieval w DF q =
        ([EmbedCall [q]],
         Inr ''Failed to create embedding. Is Ollama running and the bge-m3 model available?'')) \<and>
   (DF = Some rows \<and> rows \<noteq> [] \<and> embed_service w [q] = Response (Some (v # vs)) \<and>
    OLLAMA_GENERATE_URL w \<noteq> [] \<and>
    generate_service w (build_prompt (join [nl, nl] (map (\<lambda>(i, c, s). c) (retrieval w rows v))) q)
      = RequestException \<longrightarrow>
      perform_rag_retrieval w DF q =
        ([EmbedCall [q],
          GenerateCall (build_prompt (join [nl, nl] (map (\<lambda>(i, c, s). c) (retrieval w rows v))) q)],
         Inr (''Sorry, I couldn'' @ [CHR 0x27] @ ''t connect to the Ollama server or the request timed out.''))) \<and>
   (\<exists>p. fst (perform_rag_retrieval w DF q) = [] \<or>
        fst (perform_rag_retrieval w DF q) = [EmbedCall [q]] \<or>
        fst (perform_rag_retrieval w DF q) = [EmbedCall [q], GenerateCall p])"
proof (intro conjI impI)
  assume "DF \<noteq> None \<and> embed_service w [q] = RequestException"
  then show "perform_rag_retrieval w DF q =
        ([EmbedCall [q]],
         Inr ''Failed to create embedding. Is Ollama running and the bge-m3 model available?'')"
    by (auto simp: perform_rag_retrieval_def create_embedding_def)
next
  assume "DF = Some rows \<and> rows \<noteq> [] \<and> embed_service w [q] = Response (Some (v # vs)) \<and>
    OLLAMA_GENERATE_URL w \<noteq> [] \<and>
    generate_service w (build_prompt (join [nl, nl] (map (\<lambda>(i, c, s). c) (retrieval w rows v))) q)
      = RequestException"
  then show "perform_rag_retrieval w DF q =
        ([EmbedCall [q],
          GenerateCall (build_prompt (join [nl, nl] (map (\<lambda>(i, c, s). c) (retrieval w rows v))) q)],
         Inr (''Sorry, I couldn'' @ [CHR 0x27] @ ''t connect to the Ollama server or the request timed out.''))"
    by (simp add: perform_rag_retrieval_def create_embedding_def inference_def Let_def)
next
  show "\<exists>p. fst (perform_rag_retrieval w DF q) = [] \<or>
        fst (perform_rag_retrieval w DF q) = [EmbedCall [q]] \<or>
        fst (perform_rag_retrieval w DF q) = [EmbedCall [q], GenerateCall p]"
    by (auto simp: perform_rag_retrieval_def create_embedding_def inference_def Let_def
        split: option.splits upstream.splits list.splits)
qed

theorem upstream_failure_messages_witness:
  "perform_rag_retrieval (example_world (\<lambda>x. RequestException) (\<lambda>x. RequestException))
     (Some [\<lparr>df_content = ''c0'', chunk_embeddings = [1, 0]\<rparr>]) ''Who?''
   = ([EmbedCall [''Who?'']],
      Inr ''Failed to create embedding. Is Ollama running and the bge-m3 model available?'') \<and>
   snd (perform_rag_retrieval (example_world (\<lambda>x. Response (Some [[1, 0]])) (\<lambda>x. RequestException))
     (Some [\<lparr>df_content = ''c0'', chunk_embeddings = [1, 0]\<rparr>]) ''Who?'')
   = Inr (''Sorry, I couldn'' @ [CHR 0x27] @ ''t connect to the Ollama server or the request timed out.'')"
proof -
  let ?w1 = "example_world (\<lambda>x. RequestException) (\<lambda>x. RequestException)"
  let ?w2 = "example_world (\<lambda>x. Response (Some [[1, 0]])) (\<lambda>x. RequestException)"
  let ?rows = "[\<lparr>df_content = ''c0'', chunk_embeddings = [1, 0::real]\<rparr>]"
  have a: "Some ?rows \<noteq> None \<and> embed_service ?w1 [''Who?''] = RequestException"
    by (simp add: example_world_def)
  have b: "Some ?rows = Some ?rows \<and> ?rows \<noteq> [] \<and>
      embed_service ?w2 [''Who?''] = Response (Some ([1, 0] # [])) \<and>
      OLLAMA_GENERATE_URL ?w2 \<noteq> [] \<and>
      generate_service ?w2
        (build_prompt (join [nl, nl] (map (\<lambda>(i, c, s). c) (retrieval ?w2 ?rows [1, 0]))) ''Who?'')
      = RequestException"
    by (simp add: example_world_def)
  from a upstream_failure_messages[of "Some ?rows" ?w1 "''Who?''"]
  have 1: "perform_rag_retrieval ?w1 (Some ?rows) ''Who?''
     = ([EmbedCall [''Who?'']],
        Inr ''Failed to create embedding. Is Ollama running and the bge-m3 model available?'')"
    by blast
  from b upstream_failure_messages[of "Some ?rows" ?w2 "''Who?''" ?rows "[1, 0]" "[]"]
  have 2: "snd (perform_rag_retrieval ?w2 (Some ?rows) ''Who?'')
     = Inr (''Sorry, I couldn'' @ [CHR 0x27] @ ''t connect to the Ollama server or the request timed out.'')"
    by simp
  from 1 2 show ?thesis by blast
qed

section \<open>Splitting a long response\<close>








end
